theory Spec2Isabelle
  imports Main "HOL-Library.Word"
begin

section \<open>BitcoinLedgerProvider: a shallow embedding\<close>

text \<open>
  The theory embeds \<^verbatim>\<open>src/providers/bitcoin/BitcoinLedgerProvider.js\<close>.

  Conventions of the embedding.
  \<^item> A JavaScript number is a double. The type \<open>number\<close> holds the doubles whose value
    is an integer, \<open>NaN\<close> and the two infinities. A sum or a product is the exact result
    rounded to the nearest double, ties to the even mantissa, as IEEE 754 has it; it is
    exact while the result stays below \<open>2 ^ 53\<close> in magnitude. \<open>NaN\<close> is kept because
    the source produces it: an omitted argument is \<open>undefined\<close>, and a product with
    \<open>undefined\<close> is \<open>NaN\<close>. The values of unspent outputs and the running total of the
    selector are integers.
  \<^item> An \<^verbatim>\<open>async\<close> method returns a promise. Where the source awaits the call (lines
    125, 126) the embedding takes the value the promise resolves to. Where it does not
    (lines 53, 169, 170) the variable holds the promise itself: a data property read
    off a promise is \<open>undefined\<close>, and a call of an array method on it throws a
    \<^verbatim>\<open>TypeError\<close>.
  \<^item> A \<^verbatim>\<open>while\<close> loop with no bound is a partial function in the option monad:
    \<open>None\<close> is the loop that never returns.
  \<^item> A thrown error is the left summand of a result.
  \<^item> Collaborators that are not part of the file (the node query interface, the signing
    device, the helpers of \<^verbatim>\<open>crypto\<close> and \<^verbatim>\<open>BitcoinUtil\<close>, the network table) are
    the fields of the record \<open>world\<close>.
\<close>

subsection \<open>JavaScript numbers\<close>

datatype number = Num int | NaN | PosInfinity | NegInfinity

fun ToNumber :: "int option \<Rightarrow> number" where
  "ToNumber None = NaN"
| "ToNumber (Some i) = Num i"

text \<open>
  The distance between neighbouring doubles at a non-negative magnitude \<open>x\<close>, never
  below 1: it is 1 up to \<open>2 ^ 53\<close>, 2 up to \<open>2 ^ 54\<close>, and doubles with each further
  binade.
\<close>

function ulp_of :: "int \<Rightarrow> int" where
  "ulp_of x = (if x < 2 ^ 53 then 1 else 2 * ulp_of (x div 2))"
  by pat_completeness auto
termination
  by (relation "measure nat") auto

declare ulp_of.simps [simp del]

text \<open>The double nearest to an integer, ties to the even mantissa.\<close>

definition round_double :: "int \<Rightarrow> int" where
  "round_double v =
     (let a = \<bar>v\<bar>;
          u = ulp_of a;
          q = a div u;
          r = a mod u;
          m = (if 2 * r < u \<or> (2 * r = u \<and> even q) then q * u else (q + 1) * u)
      in if v < 0 then - m else m)"

text \<open>The number an exact integer result becomes; past the largest double it is an infinity.\<close>

definition js_of_int :: "int \<Rightarrow> number" where
  "js_of_int v =
     (let r = round_double v
      in if 2 ^ 1024 \<le> r then PosInfinity
         else if r \<le> - (2 ^ 1024) then NegInfinity
         else Num r)"

fun js_sign :: "number \<Rightarrow> int" where
  "js_sign (Num a) = sgn a"
| "js_sign PosInfinity = 1"
| "js_sign NegInfinity = - 1"
| "js_sign NaN = 0"

definition signed_infinity :: "int \<Rightarrow> number" where
  "signed_infinity s = (if 0 < s then PosInfinity else if s < 0 then NegInfinity else NaN)"

fun js_negate :: "number \<Rightarrow> number" where
  "js_negate (Num a) = Num (- a)"
| "js_negate PosInfinity = NegInfinity"
| "js_negate NegInfinity = PosInfinity"
| "js_negate NaN = NaN"

fun js_times :: "number \<Rightarrow> number \<Rightarrow> number" where
  "js_times (Num a) (Num b) = js_of_int (a * b)"
| "js_times NaN b = NaN"
| "js_times a NaN = NaN"
| "js_times a b = signed_infinity (js_sign a * js_sign b)"

fun js_plus :: "number \<Rightarrow> number \<Rightarrow> number" where
  "js_plus (Num a) (Num b) = js_of_int (a + b)"
| "js_plus NaN b = NaN"
| "js_plus a NaN = NaN"
| "js_plus PosInfinity NegInfinity = NaN"
| "js_plus NegInfinity PosInfinity = NaN"
| "js_plus PosInfinity b = PosInfinity"
| "js_plus NegInfinity b = NegInfinity"
| "js_plus a b = b"

definition js_minus :: "number \<Rightarrow> number \<Rightarrow> number" where
  "js_minus a b = js_plus a (js_negate b)"

text \<open>Comparisons with \<open>NaN\<close> are false.\<close>

fun js_less :: "number \<Rightarrow> number \<Rightarrow> bool" where
  "js_less (Num a) (Num b) = (a < b)"
| "js_less NegInfinity (Num b) = True"
| "js_less NegInfinity PosInfinity = True"
| "js_less (Num a) PosInfinity = True"
| "js_less _ _ = False"


definition js_greater :: "number \<Rightarrow> number \<Rightarrow> bool" where
  "js_greater a b = js_less b a"

text \<open>
  \<^verbatim>\<open>String (x)\<close> for a double \<open>x\<close> that is a non-negative integer is the decimal numeral
  with the fewest significant digits that still rounds to \<open>x\<close>; of two such numerals
  the one nearer to \<open>x\<close>, and on a tie the one whose digits make an even number.
  \<open>shortest_decimal x\<close> is the integer that numeral denotes. It is found as a multiple
  of the highest power of ten that has a multiple rounding to \<open>x\<close>: only the multiple
  next below \<open>x\<close> and the one next above can round to \<open>x\<close>.
\<close>

function decimal_length :: "nat \<Rightarrow> nat" where
  "decimal_length x = (if x = 0 then 0 else 1 + decimal_length (x div 10))"
  by pat_completeness auto
termination
  by (relation "measure id") auto

declare decimal_length.simps [simp del]

function shortest_from :: "nat \<Rightarrow> nat \<Rightarrow> nat" where
  "shortest_from p x =
     (if p = 0 then x
      else
        let lo = x div 10 ^ p * 10 ^ p;
            hi = lo + 10 ^ p;
            lo_ok = (round_double (int lo) = int x);
            hi_ok = (round_double (int hi) = int x)
        in if lo_ok \<and> hi_ok then
             (if x - lo < hi - x then lo
              else if hi - x < x - lo then hi
              else if even (lo div 10 ^ p) then lo else hi)
           else if lo_ok then lo
           else if hi_ok then hi
           else shortest_from (p - 1) x)"
  by pat_completeness auto
termination
  by (relation "measure fst") auto

declare shortest_from.simps [simp del]

definition shortest_decimal :: "nat \<Rightarrow> nat" where
  "shortest_decimal x = shortest_from (decimal_length x) x"

subsection \<open>Hexadecimal strings and buffers\<close>

type_synonym buffer = "8 word list"

definition hex_digit :: "nat \<Rightarrow> char" where
  "hex_digit n = ''0123456789abcdef'' ! (n mod 16)"

text \<open>The hexadecimal numeral of a natural number: no leading zeros, lower case.\<close>

function digits16 :: "nat \<Rightarrow> string" where
  "digits16 n = (if n < 16 then [hex_digit n] else digits16 (n div 16) @ [hex_digit (n mod 16)])"
  by pat_completeness auto
termination
  by (relation "measure id") auto

declare digits16.simps [simp del]

text \<open>
  \<^verbatim>\<open>BigNumber (amount).toString (16)\<close>. The constructor reads \<^verbatim>\<open>String (amount)\<close>, so
  the value it holds is \<open>shortest_decimal\<close> of the magnitude.
\<close>

fun BigNumber_toString16 :: "number \<Rightarrow> string" where
  "BigNumber_toString16 (Num i) =
     (if i < 0 then CHR ''-'' # digits16 (shortest_decimal (nat (- i)))
      else digits16 (shortest_decimal (nat i)))"
| "BigNumber_toString16 NaN = ''NaN''"
| "BigNumber_toString16 PosInfinity = ''Infinity''"
| "BigNumber_toString16 NegInfinity = ''-Infinity''"

definition hex_value :: "char \<Rightarrow> nat option" where
  "hex_value c =
     (let n = (of_char c :: nat) in
      if 48 \<le> n \<and> n \<le> 57 then Some (n - 48)
      else if 97 \<le> n \<and> n \<le> 102 then Some (n - 87)
      else if 65 \<le> n \<and> n \<le> 70 then Some (n - 55)
      else None)"

text \<open>
  \<^verbatim>\<open>Buffer.from(s, 'hex')\<close>: two digits a byte; decoding stops at the first pair that is
  not hexadecimal, and a single trailing character is dropped.
\<close>

fun Buffer_from_hex :: "string \<Rightarrow> buffer" where
  "Buffer_from_hex (a # b # rest) =
     (case (hex_value a, hex_value b) of
        (Some x, Some y) \<Rightarrow> of_nat (16 * x + y) # Buffer_from_hex rest
      | _ \<Rightarrow> [])"
| "Buffer_from_hex _ = []"

text \<open>\<^verbatim>\<open>buf.toString('hex')\<close>: two lower-case digits a byte.\<close>

definition hex_byte :: "8 word \<Rightarrow> string" where
  "hex_byte b = [hex_digit (unat b div 16), hex_digit (unat b mod 16)]"

definition Buffer_toString_hex :: "buffer \<Rightarrow> string" where
  "Buffer_toString_hex buf = concat (map hex_byte buf)"

definition toUpperCase_char :: "char \<Rightarrow> char" where
  "toUpperCase_char c =
     (let n = (of_char c :: nat) in if 97 \<le> n \<and> n \<le> 122 then char_of (n - 32) else c)"

definition toUpperCase :: "string \<Rightarrow> string" where
  "toUpperCase s = map toUpperCase_char s"

text \<open>
  Two reference encodings, to state what the conversions compute: the hexadecimal
  numeral of \<open>n\<close> on exactly \<open>k\<close> digits, and the big-endian bytes of \<open>n\<close> on exactly \<open>k\<close>
  bytes.
\<close>

fun fixed16 :: "nat \<Rightarrow> nat \<Rightarrow> string" where
  "fixed16 0 n = []"
| "fixed16 (Suc k) n = fixed16 k (n div 16) @ [hex_digit (n mod 16)]"

fun big_endian :: "nat \<Rightarrow> nat \<Rightarrow> buffer" where
  "big_endian 0 n = []"
| "big_endian (Suc k) n = big_endian k (n div 256) @ [of_nat n]"

subsection \<open>Fee estimation\<close>

text \<open>
  \<^verbatim>\<open>calculateFee (numInputs, numOutputs, feePerByte)\<close>, line 113. The third argument is
  \<open>None\<close> when the caller omits it (line 134 does).
\<close>

definition calculateFee :: "int \<Rightarrow> int \<Rightarrow> int option \<Rightarrow> number" where
  "calculateFee numInputs numOutputs feePerByte =
     js_times
       (js_plus
          (js_plus (js_times (Num numInputs) (Num 148)) (js_times (Num numOutputs) (Num 34)))
          (Num 10))
       (ToNumber feePerByte)"

subsection \<open>Data and collaborators\<close>

text \<open>\<^verbatim>\<open>new Address (bitcoinAddress, path)\<close>.\<close>

record Address =
  address :: string
  derivationPath :: string

text \<open>
  An unspent output as the node query interface returns it. \<open>utxo_value\<close> is the
  field \<^verbatim>\<open>value\<close>; \<open>utxo_derivationPath\<close> is the field \<^verbatim>\<open>derivationPath\<close>, which
  is absent until the selector writes it (line 131).
\<close>

record utxo =
  tx_hash_big_endian :: string
  tx_output_n :: nat
  utxo_value :: int
  utxo_derivationPath :: "string option"

text \<open>The fields of \<^verbatim>\<open>this._network\<close> that the file reads.\<close>

record network =
  name :: string
  pubKeyHash :: string
  scriptHash :: string

datatype error = Error string | TypeError string

text \<open>
  The oracle \<open>isUsedAddress\<close> takes the value it is called with, \<open>None\<close> for
  \<open>undefined\<close>, and gives the truth value of what it returns: the loop of
  \<^verbatim>\<open>getUnusedAddress\<close> does not await the answer, it tests it (an oracle that returns a
  promise is truthy on every argument).
\<close>

record world =
  this_network :: network
  getDerivationPathFromIndex :: "nat \<Rightarrow> string"
  getWalletPublicKey :: "string \<Rightarrow> string"
  isUsedAddress :: "string option \<Rightarrow> bool"
  getUnspentTransactions :: "string \<Rightarrow> utxo list"
  base58_decode :: "string \<Rightarrow> error + buffer"
  addressToPubKeyHash :: "string \<Rightarrow> error + string"
  pubKeyToAddress :: "string \<Rightarrow> string \<Rightarrow> string \<Rightarrow> string"
  padHexStart :: "string \<Rightarrow> nat option \<Rightarrow> string"

text \<open>
  \<^verbatim>\<open>getAddressFromDerivationPath (path)\<close>, line 29: the address the returned promise
  resolves to.
\<close>

definition getAddressFromDerivationPath :: "world \<Rightarrow> string \<Rightarrow> Address" where
  "getAddressFromDerivationPath w path =
     \<lparr>address = getWalletPublicKey w path, derivationPath = path\<rparr>"

subsection \<open>Promises\<close>

text \<open>
  A promise, with the value it resolves to. The field \<^verbatim>\<open>address\<close> read off a promise
  is \<open>undefined\<close>, whatever the promise resolves to.
\<close>

datatype 'a promise = Promise 'a

definition promise_address :: "Address promise \<Rightarrow> string option" where
  "promise_address p = None"

subsection \<open>Unused-address discovery\<close>

text \<open>
  The loop of \<^verbatim>\<open>getUnusedAddress\<close>, lines 51 to 58. Line 53 does not await
  \<^verbatim>\<open>getAddressFromDerivationPath\<close>, so \<^verbatim>\<open>address\<close> is a promise and line 54 calls the
  oracle with \<^verbatim>\<open>address.address\<close>, which is \<open>undefined\<close>. The body never assigns
  \<^verbatim>\<open>addressIndex\<close>, so the recursive call has the same index. The loop has no
  \<^verbatim>\<open>await\<close>: it runs to its end, if it has one, within the call.
\<close>

partial_function (option) getUnusedAddress_while ::
  "world \<Rightarrow> nat \<Rightarrow> Address promise option" where
  "getUnusedAddress_while w addressIndex =
     (let path = getDerivationPathFromIndex w addressIndex;
          address' = Promise (getAddressFromDerivationPath w path);
          isUsed = isUsedAddress w (promise_address address')
      in if \<not> isUsed then Some address' else getUnusedAddress_while w addressIndex)"

declare getUnusedAddress_while.simps [code]

text \<open>
  \<^verbatim>\<open>getUnusedAddress (from = {})\<close>, line 47. The argument is the field \<^verbatim>\<open>from.index\<close>,
  \<open>None\<close> when it is absent; \<^verbatim>\<open>from.index || 0\<close> is then 0. The result is the promise
  the method hands back, when its loop ends.
\<close>

definition getUnusedAddress :: "world \<Rightarrow> nat option \<Rightarrow> Address promise option" where
  "getUnusedAddress w from_index =
     getUnusedAddress_while w (case from_index of None \<Rightarrow> 0 | Some i \<Rightarrow> i)"

subsection \<open>Amounts and scripts\<close>

text \<open>\<^verbatim>\<open>getAmountBuffer (amount)\<close>, line 63.\<close>

definition getAmountBuffer :: "world \<Rightarrow> number \<Rightarrow> buffer" where
  "getAmountBuffer w amount' =
     (let hexAmount = BigNumber_toString16 amount';
          hexAmount' = padHexStart w hexAmount (Some 16);
          valueBuffer = Buffer_from_hex hexAmount'
      in rev valueBuffer)"

text \<open>\<^verbatim>\<open>generateScript (address)\<close>, line 88. An exception of a helper propagates.\<close>

definition generateScript :: "world \<Rightarrow> string \<Rightarrow> error + string" where
  "generateScript w addr =
     (case base58_decode w addr of
        Inl e \<Rightarrow> Inl e
      | Inr decoded \<Rightarrow>
          let type = toUpperCase (take 2 (Buffer_toString_hex decoded)) in
          (case addressToPubKeyHash w addr of
             Inl e \<Rightarrow> Inl e
           | Inr pubKeyHash' \<Rightarrow>
               if type = pubKeyHash (this_network w) then
                 Inr (concat [''76'', ''a9'', ''14'', pubKeyHash', ''88'', ''ac''])
               else if type = scriptHash (this_network w) then
                 Inr (concat [''a9'', ''14'', pubKeyHash', ''87''])
               else Inl (Error ''Not a valid address:'')))"

subsection \<open>UTXO selection\<close>

text \<open>\<^verbatim>\<open>utxos.reduce ((acc, utxo) => acc + utxo.value, 0)\<close>, lines 127 and 172.\<close>

definition sum_utxo_values :: "utxo list \<Rightarrow> int" where
  "sum_utxo_values utxos = foldl (\<lambda>acc u. acc + utxo_value u) 0 utxos"

text \<open>The variables of \<^verbatim>\<open>getUtxosForAmount\<close> that the loop updates.\<close>

record selection =
  currentAmount :: int
  numOutputsOffset :: nat
  utxosToUse :: "utxo list"

text \<open>
  The callback of \<^verbatim>\<open>utxos.forEach\<close>, lines 129 to 142. The call of \<^verbatim>\<open>calculateFee\<close> on
  line 134 has two arguments. \<^verbatim>\<open>totalCost\<close> is local to the callback: its last
  assignments (lines 139, 140) are computed and dropped.
\<close>

definition forEach_callback ::
  "int \<Rightarrow> int \<Rightarrow> int \<Rightarrow> Address \<Rightarrow> selection \<Rightarrow> utxo \<Rightarrow> selection" where
  "forEach_callback amount' feePerByte utxosValue address' s u =
     (let currentAmount' = currentAmount s + utxosValue;
          utxosToUse' = utxosToUse s @ [u\<lparr>utxo_derivationPath := Some (derivationPath address')\<rparr>];
          fees = calculateFee (int (length utxosToUse')) (int (numOutputsOffset s) + 1) None;
          totalCost = js_plus (Num amount') fees
      in if numOutputsOffset s = 0 \<and> js_greater (Num currentAmount') totalCost then
           let totalCost' = js_plus (js_minus totalCost fees)
                              (calculateFee (int (length utxosToUse')) 2 (Some feePerByte))
           in \<lparr>currentAmount = currentAmount', numOutputsOffset = 1, utxosToUse = utxosToUse'\<rparr>
         else \<lparr>currentAmount = currentAmount', numOutputsOffset = numOutputsOffset s,
                utxosToUse = utxosToUse'\<rparr>)"

text \<open>The address and the unspent outputs the loop reads at an index (lines 124 to 126).\<close>

definition address_at :: "world \<Rightarrow> nat \<Rightarrow> Address" where
  "address_at w addressIndex =
     getAddressFromDerivationPath w (getDerivationPathFromIndex w addressIndex)"

definition utxos_at :: "world \<Rightarrow> nat \<Rightarrow> utxo list" where
  "utxos_at w addressIndex = getUnspentTransactions w (address (address_at w addressIndex))"

text \<open>One pass of the body of the \<^verbatim>\<open>while\<close> loop, lines 124 to 142.\<close>

definition visit_address :: "world \<Rightarrow> int \<Rightarrow> int \<Rightarrow> nat \<Rightarrow> selection \<Rightarrow> selection" where
  "visit_address w amount' feePerByte addressIndex s =
     (let address' = address_at w addressIndex;
          utxos = utxos_at w addressIndex;
          utxosValue = sum_utxo_values utxos
      in foldl (forEach_callback amount' feePerByte utxosValue address') s utxos)"

text \<open>The \<^verbatim>\<open>while\<close> loop, lines 123 to 145.\<close>

partial_function (option) getUtxosForAmount_while ::
  "world \<Rightarrow> int \<Rightarrow> int \<Rightarrow> nat \<Rightarrow> selection \<Rightarrow> utxo list option" where
  "getUtxosForAmount_while w amount' feePerByte addressIndex s =
     (if currentAmount s < amount' then
        getUtxosForAmount_while w amount' feePerByte (Suc addressIndex)
          (visit_address w amount' feePerByte addressIndex s)
      else Some (utxosToUse s))"

declare getUtxosForAmount_while.simps [code]

text \<open>
  \<^verbatim>\<open>getUtxosForAmount (amount, feePerByte = 3)\<close>, line 117. \<open>None\<close> as second argument
  is the omitted argument, which takes the default.
\<close>

definition getUtxosForAmount :: "world \<Rightarrow> int \<Rightarrow> int option \<Rightarrow> utxo list option" where
  "getUtxosForAmount w amount' feePerByte =
     getUtxosForAmount_while w amount' (case feePerByte of None \<Rightarrow> 3 | Some f \<Rightarrow> f) 0
       \<lparr>currentAmount = 0, numOutputsOffset = 0, utxosToUse = []\<rparr>"

text \<open>
  The variables of the loop after the addresses of index \<open>0\<close> to \<open>n - 1\<close> have been
  visited, whatever the loop condition says: the state in which the loop tests its
  condition for the \<open>n\<close>-th time, if it gets there.
\<close>

fun selection_after :: "world \<Rightarrow> int \<Rightarrow> int \<Rightarrow> nat \<Rightarrow> selection" where
  "selection_after w amount' feePerByte 0 =
     \<lparr>currentAmount = 0, numOutputsOffset = 0, utxosToUse = []\<rparr>"
| "selection_after w amount' feePerByte (Suc n) =
     visit_address w amount' feePerByte n (selection_after w amount' feePerByte n)"

subsection \<open>Transaction assembly\<close>

text \<open>
  \<^verbatim>\<open>createSignedTransaction (to, value, data, from)\<close>, line 161. \<open>data\<close> is \<open>None\<close> when
  absent; the empty string is falsy too. Line 169 calls \<^verbatim>\<open>getUnusedAddress\<close> without
  \<^verbatim>\<open>await\<close>: its loop runs within the call, and \<open>None\<close> is the call whose loop never
  ends. Line 170 calls \<^verbatim>\<open>getUtxosForAmount\<close> without \<^verbatim>\<open>await\<close>: the method is
  \<^verbatim>\<open>async\<close>, so \<^verbatim>\<open>unspentOutputsToUse\<close> is a promise, whatever the wallet holds. Line
  172 calls \<^verbatim>\<open>reduce\<close> on it, which a promise does not have: the call throws a
  \<^verbatim>\<open>TypeError\<close>. Lines 173 to 206 (the funds check, the outputs, the signing call) are
  not reached.
\<close>

definition createSignedTransaction ::
  "world \<Rightarrow> string \<Rightarrow> int \<Rightarrow> string option \<Rightarrow> nat option \<Rightarrow> (error + string) option" where
  "createSignedTransaction w to_addr value' data from_index =
     (let to_addr' =
            (case data of
               None \<Rightarrow> to_addr
             | Some d \<Rightarrow>
                 if d = [] then to_addr
                 else pubKeyToAddress w (padHexStart w d None) (name (this_network w))
                        ''scriptHash'')
      in case getUnusedAddress w from_index of
           None \<Rightarrow> None
         | Some unusedAddress \<Rightarrow>
             let unspentOutputsToUse = Promise (getUtxosForAmount w value' None)
             in Some (Inl (TypeError ''unspentOutputsToUse.reduce is not a function'')))"

subsection \<open>A concrete set of collaborators\<close>

text \<open>
  A small world on which the definitions run: the derivation path of an index is its
  hexadecimal numeral, and an address is a hexadecimal string that starts with its
  version byte. The oracle for used addresses and the unspent outputs of each address
  are its parameters.
\<close>

definition pad_zeros :: "string \<Rightarrow> nat option \<Rightarrow> string" where
  "pad_zeros hex len =
     (let n = (case len of None \<Rightarrow> length hex | Some l \<Rightarrow> l);
          n' = n + n mod 2
      in replicate (n' - length hex) (CHR ''0'') @ hex)"

definition example_world ::
  "(string option \<Rightarrow> bool) \<Rightarrow> (string \<Rightarrow> utxo list) \<Rightarrow> world" where
  "example_world used unspent =
     \<lparr>this_network = \<lparr>name = ''bitcoin'', pubKeyHash = ''00'', scriptHash = ''05''\<rparr>,
      getDerivationPathFromIndex = digits16,
      getWalletPublicKey = (\<lambda>path. ''00'' @ path @ path),
      isUsedAddress = used,
      getUnspentTransactions = unspent,
      base58_decode = (\<lambda>a. Inr (Buffer_from_hex a)),
      addressToPubKeyHash = (\<lambda>a. Inr (drop 2 a)),
      pubKeyToAddress = (\<lambda>s n t. ''05'' @ s),
      padHexStart = pad_zeros\<rparr>"

definition coin :: "int \<Rightarrow> utxo" where
  "coin v = \<lparr>tx_hash_big_endian = ''aa'', tx_output_n = 0, utxo_value = v,
             utxo_derivationPath = None\<rparr>"

text \<open>Unspent outputs that all sit at the address of index 0, which is \<open>''0000''\<close>.\<close>

definition at_first_address :: "utxo list \<Rightarrow> string \<Rightarrow> utxo list" where
  "at_first_address utxos a = (if a = ''0000'' then utxos else [])"

section \<open>Properties\<close>

subsection \<open>Arithmetic of numbers\<close>

lemma ulp_of_safe: "x < 2 ^ 53 \<Longrightarrow> ulp_of x = 1"
  by (subst ulp_of.simps) simp

lemma round_double_exact: "\<bar>v\<bar> < 2 ^ 53 \<Longrightarrow> round_double v = v"
  by (simp add: round_double_def ulp_of_safe Let_def)

lemma js_of_int_exact: "\<bar>v\<bar> < 2 ^ 53 \<Longrightarrow> js_of_int v = Num v"
proof -
  assume v: "\<bar>v\<bar> < 2 ^ 53"
  have "(2::int) ^ 53 \<le> 2 ^ 1024" by (rule power_increasing) simp_all
  with v have "v < 2 ^ 1024" "- (2 ^ 1024) < v" by linarith+
  with v show ?thesis by (simp add: js_of_int_def round_double_exact)
qed

lemma js_times_NaN: "js_times a NaN = NaN"
  by (cases a) simp_all

lemma js_plus_NaN: "js_plus a NaN = NaN"
  by (cases a) simp_all

lemma calculateFee_omitted: "calculateFee numInputs numOutputs None = NaN"
  by (simp add: calculateFee_def js_times_NaN)

lemma calculateFee_exact:
  assumes "\<bar>numInputs * 148\<bar> < 2 ^ 53"
    and "\<bar>numOutputs * 34\<bar> < 2 ^ 53"
    and "\<bar>numInputs * 148 + numOutputs * 34\<bar> < 2 ^ 53"
    and "\<bar>numInputs * 148 + numOutputs * 34 + 10\<bar> < 2 ^ 53"
    and "\<bar>(numInputs * 148 + numOutputs * 34 + 10) * feePerByte\<bar> < 2 ^ 53"
  shows "calculateFee numInputs numOutputs (Some feePerByte) =
     Num ((numInputs * 148 + numOutputs * 34 + 10) * feePerByte)"
  using assms by (simp add: calculateFee_def js_of_int_exact)



text \<open>
  C3 (amended). For all arguments the fee is the value of
  \<open>(numInputs * 148 + numOutputs * 34 + 10) * feePerByte\<close> in double arithmetic; it is
  the exact value when the two products, their sum, the sum plus 10 and the final
  product are integers below \<open>2 ^ 53\<close> in magnitude. For one input and \<open>feePerByte = 3\<close>
  the fee with one output is 576 and the fee with two outputs is 678.
\<close>

theorem calculateFee_formula:
  "(\<bar>numInputs * 148\<bar> < 2 ^ 53 \<longrightarrow>
    \<bar>numOutputs * 34\<bar> < 2 ^ 53 \<longrightarrow>
    \<bar>numInputs * 148 + numOutputs * 34\<bar> < 2 ^ 53 \<longrightarrow>
    \<bar>numInputs * 148 + numOutputs * 34 + 10\<bar> < 2 ^ 53 \<longrightarrow>
    \<bar>(numInputs * 148 + numOutputs * 34 + 10) * feePerByte\<bar> < 2 ^ 53 \<longrightarrow>
    calculateFee numInputs numOutputs (Some feePerByte) =
      Num ((numInputs * 148 + numOutputs * 34 + 10) * feePerByte))
   \<and> calculateFee 1 1 (Some 3) = Num 576
   \<and> calculateFee 1 2 (Some 3) = Num 678"
  by (simp add: calculateFee_exact)

theorem calculateFee_formula_witness:
  "calculateFee 2 3 (Some 5) = Num 2040"
  using calculateFee_formula [of 2 3 5] by simp

text \<open>
  C3 as stated gives 888 for one input, two outputs and \<open>feePerByte = 3\<close>; the formula
  gives \<open>(148 + 68 + 10) * 3 = 678\<close>. As stated the formula is also exact for all
  arguments: for \<open>numInputs = 2 ^ 53 - 1\<close>, one output and \<open>feePerByte = 3\<close> the doubles give
  3999196469104999424, and the formula has 3999196469105000136.
\<close>

theorem calculateFee_with_change_not_888:
  "calculateFee 1 2 (Some 3) \<noteq> Num 888
   \<and> calculateFee 9007199254740991 1 (Some 3) = Num 3999196469104999424
   \<and> Num 3999196469104999424 \<noteq> Num ((9007199254740991 * 148 + 1 * 34 + 10) * 3)"
proof -
  have small: "calculateFee 1 2 (Some 3) = Num 678"
    by (simp add: calculateFee_exact)
  have ulps: "ulp_of 1333065489701666668 = 256" "ulp_of 1333065489701666594 = 256"
    "ulp_of 1333065489701666570 = 256" "ulp_of 3999196469104999680 = 512"
    by (simp_all add: ulp_of.simps)
  have rounds: "round_double 1333065489701666668 = 1333065489701666560"
    "round_double 1333065489701666594 = 1333065489701666560"
    "round_double 1333065489701666570 = 1333065489701666560"
    "round_double 3999196469104999680 = 3999196469104999424"
    by (simp_all add: round_double_def Let_def ulps)
  have big: "js_of_int 1333065489701666668 = Num 1333065489701666560"
    "js_of_int 1333065489701666594 = Num 1333065489701666560"
    "js_of_int 1333065489701666570 = Num 1333065489701666560"
    "js_of_int 3999196469104999680 = Num 3999196469104999424"
    by (simp_all add: js_of_int_def rounds)
  have "js_of_int 34 = Num 34"
    by (rule js_of_int_exact) simp
  then have large: "calculateFee 9007199254740991 1 (Some 3) = Num 3999196469104999424"
    by (simp add: calculateFee_def big)
  show ?thesis by (simp add: small large)
qed






text \<open>
  C1 at a failing input. One unspent output of value 10000 sits at the first address;
  the target is 10000 and \<open>feePerByte\<close> is 3. The selector returns that output alone:
  its value is below the target plus the fee for one input and one output, 10576.
\<close>

theorem getUtxosForAmount_below_target_plus_fee:
  "getUtxosForAmount (example_world (\<lambda>a. False) (at_first_address [coin 10000])) 10000 (Some 3)
     = Some [(coin 10000)\<lparr>utxo_derivationPath := Some ''0''\<rparr>]
   \<and> js_less (Num (sum_utxo_values [(coin 10000)\<lparr>utxo_derivationPath := Some ''0''\<rparr>]))
        (js_plus (Num 10000) (calculateFee 1 1 (Some 3)))"
  by code_simp

text \<open>
  C5. When the address decodes to a buffer that starts with the byte \<open>version\<close>, the
  script is chosen by the upper-case hexadecimal form of that byte alone: the
  pay-to-pubkey-hash script when it is the network's \<open>pubKeyHash\<close>, otherwise the
  pay-to-script-hash script when it is the network's \<open>scriptHash\<close>, otherwise the error
  \<^verbatim>\<open>Not a valid address:\<close>.
\<close>

theorem generateScript_by_version_byte:
  assumes "base58_decode w addr = Inr (version # payload)"
    and "addressToPubKeyHash w addr = Inr h"
  shows "generateScript w addr =
     (if toUpperCase (hex_byte version) = pubKeyHash (this_network w) then
        Inr (''76a914'' @ h @ ''88ac'')
      else if toUpperCase (hex_byte version) = scriptHash (this_network w) then
        Inr (''a914'' @ h @ ''87'')
      else Inl (Error ''Not a valid address:''))"
  using assms by (simp add: generateScript_def Buffer_toString_hex_def hex_byte_def)

theorem generateScript_by_version_byte_witness:
  "generateScript (example_world (\<lambda>a. False) (\<lambda>a. [])) ''00abcd'' = Inr ''76a914abcd88ac''
   \<and> generateScript (example_world (\<lambda>a. False) (\<lambda>a. [])) ''05abcd'' = Inr ''a914abcd87''
   \<and> generateScript (example_world (\<lambda>a. False) (\<lambda>a. [])) ''6fabcd''
       = Inl (Error ''Not a valid address:'')"
proof -
  let ?w = "example_world (\<lambda>a. False) (\<lambda>a. [])"
  have d0: "base58_decode ?w ''00abcd'' = Inr (0 # [171, 205])"
    and d5: "base58_decode ?w ''05abcd'' = Inr (5 # [171, 205])"
    and d6: "base58_decode ?w ''6fabcd'' = Inr (111 # [171, 205])"
    by (simp_all add: example_world_def hex_value_def)
  have h: "addressToPubKeyHash ?w ''00abcd'' = Inr ''abcd''"
    "addressToPubKeyHash ?w ''05abcd'' = Inr ''abcd''"
    "addressToPubKeyHash ?w ''6fabcd'' = Inr ''abcd''"
    by (simp_all add: example_world_def)
  have v: "toUpperCase (hex_byte 0) = ''00''" "toUpperCase (hex_byte 5) = ''05''"
    "toUpperCase (hex_byte 111) = ''6F''"
    by code_simp+
  have n: "pubKeyHash (this_network ?w) = ''00''" "scriptHash (this_network ?w) = ''05''"
    by (simp_all add: example_world_def)
  show ?thesis
    using generateScript_by_version_byte [OF d0 h(1)]
      generateScript_by_version_byte [OF d5 h(2)]
      generateScript_by_version_byte [OF d6 h(3)]
    by (simp add: v n)
qed

subsection \<open>The loops\<close>

lemma getUtxosForAmount_while_stop:
  "amount' \<le> currentAmount s \<Longrightarrow>
     getUtxosForAmount_while w amount' f i s = Some (utxosToUse s)"
  by (subst getUtxosForAmount_while.simps) simp

lemma getUtxosForAmount_while_step:
  "currentAmount s < amount' \<Longrightarrow>
     getUtxosForAmount_while w amount' f i s =
       getUtxosForAmount_while w amount' f (Suc i) (visit_address w amount' f i s)"
  by (subst getUtxosForAmount_while.simps) simp

lemma getUtxosForAmount_while_reach:
  assumes "\<forall>m<n. currentAmount (selection_after w amount' f m) < amount'"
  shows "getUtxosForAmount_while w amount' f 0 (selection_after w amount' f 0) =
     getUtxosForAmount_while w amount' f n (selection_after w amount' f n)"
  using assms
proof (induction n)
  case 0
  show ?case by simp
next
  case (Suc n)
  then have "currentAmount (selection_after w amount' f n) < amount'" by simp
  from getUtxosForAmount_while_step [OF this, of w f n] Suc show ?case by simp
qed

lemma getUtxosForAmount_while_Some:
  assumes "getUtxosForAmount_while w amount' f i s = Some us"
    and "s = selection_after w amount' f i"
  shows "\<exists>n. amount' \<le> currentAmount (selection_after w amount' f n)"
proof -
  have "s = selection_after w amount' f i \<longrightarrow>
      (\<exists>n. amount' \<le> currentAmount (selection_after w amount' f n))"
  proof (rule getUtxosForAmount_while.raw_induct
      [where P = "\<lambda>w a f i s us. s = selection_after w a f i \<longrightarrow>
                    (\<exists>n. a \<le> currentAmount (selection_after w a f n))", OF _ assms(1)])
    fix loop w a f i s us
    assume IH: "\<And>w a f i s y. loop w a f i s = Some y \<Longrightarrow>
        s = selection_after w a f i \<longrightarrow> (\<exists>n. a \<le> currentAmount (selection_after w a f n))"
      and body: "(if currentAmount s < a
          then loop w a f (Suc i) (visit_address w a f i s)
          else Some (utxosToUse s)) = Some us"
    show "s = selection_after w a f i \<longrightarrow> (\<exists>n. a \<le> currentAmount (selection_after w a f n))"
    proof
      assume s: "s = selection_after w a f i"
      show "\<exists>n. a \<le> currentAmount (selection_after w a f n)"
      proof (cases "currentAmount s < a")
        case True
        with body have "loop w a f (Suc i) (visit_address w a f i s) = Some us" by simp
        moreover have "visit_address w a f i s = selection_after w a f (Suc i)"
          using s by simp
        ultimately show ?thesis using IH by blast
      next
        case False
        with s have "a \<le> currentAmount (selection_after w a f i)" by simp
        then show ?thesis ..
      qed
    qed
  qed
  with assms(2) show ?thesis by simp
qed

lemma selection_after_empty:
  "selection_after (example_world used (\<lambda>a. [])) amount' f n =
     \<lparr>currentAmount = 0, numOutputsOffset = 0, utxosToUse = []\<rparr>"
  by (induction n) (simp_all add: visit_address_def utxos_at_def example_world_def)

text \<open>
  C2 (amended). The address scan of the selector has no bound and no failure result.
  It visits the indices 0, 1, 2, ... in order and returns the collected outputs at the
  first index \<open>n\<close> where the collected amount after \<open>n\<close> addresses is no longer below the
  target; when the collected amount stays below the target at every index, the call
  never returns.
\<close>

theorem getUtxosForAmount_scan:
  "((\<forall>n. currentAmount (selection_after w amount' feePerByte n) < amount') \<longrightarrow>
      getUtxosForAmount w amount' (Some feePerByte) = None)
   \<and> (amount' \<le> currentAmount (selection_after w amount' feePerByte n) \<longrightarrow>
      (\<forall>m<n. currentAmount (selection_after w amount' feePerByte m) < amount') \<longrightarrow>
      getUtxosForAmount w amount' (Some feePerByte) =
        Some (utxosToUse (selection_after w amount' feePerByte n)))"
proof (intro conjI impI)
  assume never: "\<forall>n. currentAmount (selection_after w amount' feePerByte n) < amount'"
  show "getUtxosForAmount w amount' (Some feePerByte) = None"
  proof (cases "getUtxosForAmount w amount' (Some feePerByte)")
    case None
    then show ?thesis .
  next
    case (Some us)
    then have "getUtxosForAmount_while w amount' feePerByte 0
        (selection_after w amount' feePerByte 0) = Some us"
      by (simp add: getUtxosForAmount_def)
    from getUtxosForAmount_while_Some [OF this refl]
    obtain n where "amount' \<le> currentAmount (selection_after w amount' feePerByte n)" ..
    with never have False by (simp add: not_le [symmetric])
    then show ?thesis ..
  qed
next
  assume enough: "amount' \<le> currentAmount (selection_after w amount' feePerByte n)"
    and before: "\<forall>m<n. currentAmount (selection_after w amount' feePerByte m) < amount'"
  have "getUtxosForAmount w amount' (Some feePerByte) =
      getUtxosForAmount_while w amount' feePerByte 0 (selection_after w amount' feePerByte 0)"
    by (simp add: getUtxosForAmount_def)
  also have "\<dots> = getUtxosForAmount_while w amount' feePerByte n
      (selection_after w amount' feePerByte n)"
    using before by (rule getUtxosForAmount_while_reach)
  also have "\<dots> = Some (utxosToUse (selection_after w amount' feePerByte n))"
    using enough by (rule getUtxosForAmount_while_stop)
  finally show "getUtxosForAmount w amount' (Some feePerByte) =
      Some (utxosToUse (selection_after w amount' feePerByte n))" .
qed

theorem getUtxosForAmount_scan_witness:
  "getUtxosForAmount (example_world (\<lambda>a. False) (\<lambda>a. [])) 1 (Some 3) = None
   \<and> getUtxosForAmount (example_world (\<lambda>a. False) (at_first_address [coin 10000])) 10000 (Some 3)
       = Some [(coin 10000)\<lparr>utxo_derivationPath := Some ''0''\<rparr>]"
proof -
  let ?e = "example_world (\<lambda>a. False) (\<lambda>a. [])"
  let ?w = "example_world (\<lambda>a. False) (at_first_address [coin 10000])"
  have never: "\<forall>n. currentAmount (selection_after ?e 1 3 n) < 1"
    by (simp add: selection_after_empty)
  have one: "visit_address ?w 10000 3 0
      \<lparr>currentAmount = 0, numOutputsOffset = 0, utxosToUse = []\<rparr> =
      \<lparr>currentAmount = 10000, numOutputsOffset = 0,
        utxosToUse = [(coin 10000)\<lparr>utxo_derivationPath := Some ''0''\<rparr>]\<rparr>"
    by code_simp
  have enough: "10000 \<le> currentAmount (selection_after ?w 10000 3 (Suc 0))"
    by (simp add: one)
  have before: "\<forall>m<Suc 0. currentAmount (selection_after ?w 10000 3 m) < 10000"
    by simp
  show ?thesis
    using getUtxosForAmount_scan [of ?e 1 3 0] never
      getUtxosForAmount_scan [of ?w 10000 3 "Suc 0"] enough before
    by (simp add: one)
qed

text \<open>
  C2 as stated promises a bounded scan that ends in an error. No address of this world
  holds an unspent output and the target is 1: the call does not return.
\<close>

theorem getUtxosForAmount_never_returns:
  "getUtxosForAmount (example_world (\<lambda>a. False) (\<lambda>a. [])) 1 (Some 3) = None"
proof (cases "getUtxosForAmount (example_world (\<lambda>a. False) (\<lambda>a. [])) 1 (Some 3)")
  case None
  then show ?thesis .
next
  case (Some us)
  then have "getUtxosForAmount_while (example_world (\<lambda>a. False) (\<lambda>a. [])) 1 3 0
      (selection_after (example_world (\<lambda>a. False) (\<lambda>a. [])) 1 3 0) = Some us"
    by (simp add: getUtxosForAmount_def)
  from getUtxosForAmount_while_Some [OF this refl]
  show ?thesis by (simp add: selection_after_empty)
qed

subsection \<open>Promises that are not awaited\<close>

lemma getUnusedAddress_while_Some:
  assumes "getUnusedAddress_while w i = Some a"
  shows "\<not> isUsedAddress w None"
proof (rule getUnusedAddress_while.raw_induct
    [where P = "\<lambda>w i a. \<not> isUsedAddress w None", OF _ assms])
  fix loop w i a
  assume IH: "\<And>w i y. loop w i = Some y \<Longrightarrow> \<not> isUsedAddress w None"
    and body: "(let path = getDerivationPathFromIndex w i;
          address' = Promise (getAddressFromDerivationPath w path);
          isUsed = isUsedAddress w (promise_address address')
      in if \<not> isUsed then Some address' else loop w i) = Some a"
  show "\<not> isUsedAddress w None"
  proof (cases "isUsedAddress w None")
    case True
    with body have "loop w i = Some a" by (simp add: Let_def promise_address_def)
    then show ?thesis by (rule IH)
  next
    case False
    then show ?thesis .
  qed
qed

lemma getUnusedAddress_while_unused:
  "\<not> isUsedAddress w None \<Longrightarrow>
     getUnusedAddress_while w i = Some (Promise (address_at w i))"
  by (subst getUnusedAddress_while.simps)
    (simp add: address_at_def Let_def promise_address_def)

lemma getUnusedAddress_eq:
  "getUnusedAddress w from_index =
     (if isUsedAddress w None then None
      else Some (Promise (address_at w (case from_index of None \<Rightarrow> 0 | Some i \<Rightarrow> i))))"
proof (cases "isUsedAddress w None")
  case True
  have "getUnusedAddress_while w i = None" for i
  proof (cases "getUnusedAddress_while w i")
    case (Some a)
    from getUnusedAddress_while_Some [OF this] True show ?thesis by simp
  qed simp
  with True show ?thesis by (simp add: getUnusedAddress_def)
next
  case False
  then show ?thesis by (simp add: getUnusedAddress_def getUnusedAddress_while_unused)
qed

lemma createSignedTransaction_eq:
  "createSignedTransaction w to_addr value' data from_index =
     (if isUsedAddress w None then None
      else Some (Inl (TypeError ''unspentOutputsToUse.reduce is not a function'')))"
  by (simp add: createSignedTransaction_def getUnusedAddress_eq Let_def)

text \<open>The concrete world, evaluated.\<close>

lemma example_world_simps:
  "this_network (example_world u f) = \<lparr>name = ''bitcoin'', pubKeyHash = ''00'', scriptHash = ''05''\<rparr>"
  "getDerivationPathFromIndex (example_world u f) = digits16"
  "getWalletPublicKey (example_world u f) = (\<lambda>path. ''00'' @ path @ path)"
  "isUsedAddress (example_world u f) = u"
  "getUnspentTransactions (example_world u f) = f"
  "base58_decode (example_world u f) = (\<lambda>a. Inr (Buffer_from_hex a))"
  "addressToPubKeyHash (example_world u f) = (\<lambda>a. Inr (drop 2 a))"
  "padHexStart (example_world u f) = pad_zeros"
  by (simp_all add: example_world_def)

lemma coin_simps:
  "utxo_value (coin v) = v" "tx_hash_big_endian (coin v) = ''aa''" "tx_output_n (coin v) = 0"
  by (simp_all add: coin_def)

lemma example_world_addresses:
  "address_at (example_world u f) 0 = \<lparr>address = ''0000'', derivationPath = ''0''\<rparr>"
  "address_at (example_world u f) (Suc 0) = \<lparr>address = ''0011'', derivationPath = ''1''\<rparr>"
proof -
  have "digits16 0 = ''0''" "digits16 (Suc 0) = ''1''"
    by (subst digits16.simps, simp add: hex_digit_def)+
  then show "address_at (example_world u f) 0 = \<lparr>address = ''0000'', derivationPath = ''0''\<rparr>"
    "address_at (example_world u f) (Suc 0) = \<lparr>address = ''0011'', derivationPath = ''1''\<rparr>"
    by (simp_all add: address_at_def getAddressFromDerivationPath_def example_world_simps)
qed

lemma example_world_one_coin:
  assumes "amount' \<le> v" "0 < amount'"
  shows "getUtxosForAmount (example_world u (at_first_address [coin v])) amount' None =
     Some [(coin v)\<lparr>utxo_derivationPath := Some ''0''\<rparr>]"
proof -
  let ?w = "example_world u (at_first_address [coin v])"
  let ?s0 = "\<lparr>currentAmount = 0, numOutputsOffset = 0, utxosToUse = []\<rparr>"
  have visit: "visit_address ?w amount' 3 0 ?s0 =
      \<lparr>currentAmount = v, numOutputsOffset = 0,
        utxosToUse = [(coin v)\<lparr>utxo_derivationPath := Some ''0''\<rparr>]\<rparr>"
    by (simp add: visit_address_def utxos_at_def example_world_addresses example_world_simps
        at_first_address_def sum_utxo_values_def coin_simps forEach_callback_def
        calculateFee_omitted js_plus_NaN js_greater_def)
  have "getUtxosForAmount ?w amount' None = getUtxosForAmount_while ?w amount' 3 0 ?s0"
    by (simp add: getUtxosForAmount_def)
  also have "\<dots> = getUtxosForAmount_while ?w amount' 3 (Suc 0) (visit_address ?w amount' 3 0 ?s0)"
    using assms by (intro getUtxosForAmount_while_step) simp
  also have "\<dots> = Some [(coin v)\<lparr>utxo_derivationPath := Some ''0''\<rparr>]"
    using assms by (simp add: visit getUtxosForAmount_while_stop)
  finally show ?thesis .
qed

text \<open>
  C4 at a failing input. The oracle reports the address of index 0, \<open>''0000''\<close>, used,
  and every other value unused, \<open>undefined\<close> among them; the address of index 1 is
  \<open>''0011''\<close>. The claim has the scan go on to index 1 and return \<open>''0011''\<close>. The call
  returns the address of index 0, which the oracle reports used: line 54 reads the
  address off a promise and asks the oracle about \<open>undefined\<close>. With an oracle that
  answers used to every value the call never returns, from any start index: no line
  advances the index, bounds the scan or throws.
\<close>

theorem getUnusedAddress_returns_used_address:
  "getUnusedAddress (example_world (\<lambda>a. a = Some ''0000'') (\<lambda>a. [])) None =
     Some (Promise \<lparr>address = ''0000'', derivationPath = ''0''\<rparr>)
   \<and> isUsedAddress (example_world (\<lambda>a. a = Some ''0000'') (\<lambda>a. [])) (Some ''0000'')
   \<and> address (address_at (example_world (\<lambda>a. a = Some ''0000'') (\<lambda>a. [])) 1) = ''0011''
   \<and> \<not> isUsedAddress (example_world (\<lambda>a. a = Some ''0000'') (\<lambda>a. [])) (Some ''0011'')
   \<and> getUnusedAddress (example_world (\<lambda>a. True) (\<lambda>a. [])) (Some 3) = None"
  by (simp add: getUnusedAddress_eq example_world_addresses example_world_simps)

text \<open>
  C7 at a failing input. One unspent output of value 10000 sits at the first address
  and the send value is 10000: the selection resolves to that output, whose value is
  below the send value plus the fee for one input and one output. The claim has the
  call fail on the funds check. The call throws the \<^verbatim>\<open>TypeError\<close> of line 172: the
  selection is a promise there, and the check of line 184 is not reached.
\<close>

theorem createSignedTransaction_throws_before_funds_check:
  "getUtxosForAmount (example_world (\<lambda>a. False) (at_first_address [coin 10000])) 10000 None
     = Some [(coin 10000)\<lparr>utxo_derivationPath := Some ''0''\<rparr>]
   \<and> js_less (Num (sum_utxo_values [(coin 10000)\<lparr>utxo_derivationPath := Some ''0''\<rparr>]))
        (js_plus (Num 10000) (calculateFee 1 1 (Some 3)))
   \<and> createSignedTransaction (example_world (\<lambda>a. False) (at_first_address [coin 10000]))
        ''00ab'' 10000 None None
     = Some (Inl (TypeError ''unspentOutputsToUse.reduce is not a function''))"
proof -
  have "calculateFee 1 1 (Some 3) = Num 576"
    by (simp add: calculateFee_exact)
  then show ?thesis
    by (simp add: example_world_one_coin createSignedTransaction_eq example_world_simps
        sum_utxo_values_def coin_simps js_of_int_exact)
qed

text \<open>
  C6 at a failing input. One unspent output of value 15000 sits at the first address
  and the send value is 10000: the selection resolves to that output, whose value
  exceeds the send value plus the fee for one input and two outputs. The claim speaks
  of the output list of the assembled transaction, recipient first and change second.
  The call assembles no output list: it throws the \<^verbatim>\<open>TypeError\<close> of line 172, before
  lines 196 to 201.
\<close>

theorem createSignedTransaction_assembles_nothing:
  "getUtxosForAmount (example_world (\<lambda>a. False) (at_first_address [coin 15000])) 10000 None
     = Some [(coin 15000)\<lparr>utxo_derivationPath := Some ''0''\<rparr>]
   \<and> js_greater (Num (sum_utxo_values [(coin 15000)\<lparr>utxo_derivationPath := Some ''0''\<rparr>]))
        (js_plus (Num 10000) (calculateFee 1 2 (Some 3)))
   \<and> createSignedTransaction (example_world (\<lambda>a. False) (at_first_address [coin 15000]))
        ''00ab'' 10000 None None
     = Some (Inl (TypeError ''unspentOutputsToUse.reduce is not a function''))"
proof -
  have "calculateFee 1 2 (Some 3) = Num 678"
    by (simp add: calculateFee_exact)
  then show ?thesis
    by (simp add: example_world_one_coin createSignedTransaction_eq example_world_simps
        sum_utxo_values_def coin_simps js_of_int_exact js_greater_def)
qed

subsection \<open>Amount buffers\<close>

lemma hex_digit_0: "hex_digit 0 = CHR ''0''"
  by (simp add: hex_digit_def)

lemma fixed16_0: "fixed16 k 0 = replicate k (CHR ''0'')"
  by (induction k) (simp_all add: hex_digit_0 replicate_append_same)

lemma pad_digits16:
  "n < 16 ^ k \<Longrightarrow> 0 < k \<Longrightarrow>
     replicate (k - length (digits16 n)) (CHR ''0'') @ digits16 n = fixed16 k n"
proof (induction k arbitrary: n)
  case 0
  then show ?case by simp
next
  case (Suc k)
  show ?case
  proof (cases "n < 16")
    case True
    then have "digits16 n = [hex_digit n]" by (subst digits16.simps) simp
    with True show ?thesis by (simp add: fixed16_0)
  next
    case False
    with Suc.prems have k: "0 < k" by (cases k) simp_all
    from Suc.prems have "n div 16 < 16 ^ k"
      by (simp add: less_mult_imp_div_less mult.commute)
    moreover from False have "digits16 n = digits16 (n div 16) @ [hex_digit (n mod 16)]"
      by (subst digits16.simps) simp
    ultimately show ?thesis
      using Suc.IH [of "n div 16"] k by simp
  qed
qed



lemma hex_value_hex_digit_less: "\<forall>d\<in>set [0..<16]. hex_value (hex_digit d) = Some d"
  by (simp add: hex_digit_def hex_value_def upt_rec)

lemma hex_value_hex_digit: "hex_value (hex_digit d) = Some (d mod 16)"
proof -
  have "d mod 16 \<in> set [0..<16]" by simp
  with hex_value_hex_digit_less have "hex_value (hex_digit (d mod 16)) = Some (d mod 16)"
    by blast
  then show ?thesis by (simp add: hex_digit_def)
qed

lemma Buffer_from_hex_fixed16:
  "Buffer_from_hex (fixed16 (2 * k) n @ rest) = big_endian k n @ Buffer_from_hex rest"
proof (induction k arbitrary: n rest)
  case 0
  show ?case by simp
next
  case (Suc k)
  have byte: "(of_nat (16 * (n div 16 mod 16) + n mod 16) :: 8 word) = of_nat n"
  proof -
    have "16 * (n div 16 mod 16) + n mod 16 = n mod 256"
      using mod_mult2_eq [of n 16 16] by simp
    then show ?thesis
      by (simp add: word_of_nat_eq_iff take_bit_eq_mod)
  qed
  then have byte': "16 * of_nat (n div 16 mod 16) + of_nat (n mod 16) = (of_nat n :: 8 word)"
    by simp
  have "n div 16 div 16 = n div 256" by (simp add: div_mult2_eq)
  then show ?case
    using Suc.IH [of "n div 256" "hex_digit (n div 16 mod 16) # hex_digit (n mod 16) # rest"]
    by (simp add: hex_value_hex_digit byte')
qed

lemma rev_big_endian:
  "rev (big_endian k n) = map (\<lambda>i. of_nat (n div 256 ^ i)) [0..<k]"
proof (induction k arbitrary: n)
  case 0
  show ?case by simp
next
  case (Suc k)
  have "map (\<lambda>i. (of_nat (n div 256 ^ i) :: 8 word)) [0..<Suc k] =
      of_nat n # map (\<lambda>i. of_nat (n div 256 ^ Suc i)) [0..<k]"
    by (simp add: upt_conv_Cons map_Suc_upt [symmetric] del: upt_Suc)
  also have "\<dots> = of_nat n # map (\<lambda>i. of_nat (n div 256 div 256 ^ i)) [0..<k]"
    by (simp add: div_mult2_eq)
  finally show ?case using Suc.IH [of "n div 256"] by simp
qed


lemma ulp_of_pos: "0 < ulp_of x"
  by (induction x rule: ulp_of.induct) (subst ulp_of.simps, simp)

lemma mantissa_of_large:
  "2 ^ 53 \<le> x \<Longrightarrow> 2 ^ 52 \<le> x div ulp_of x \<and> 2 \<le> ulp_of x"
proof (induction x rule: ulp_of.induct)
  case (1 x)
  from "1.prems" have u: "ulp_of x = 2 * ulp_of (x div 2)"
    by (subst ulp_of.simps) simp
  show ?case
  proof (cases "x div 2 < 2 ^ 53")
    case True
    then have "ulp_of (x div 2) = 1" by (rule ulp_of_safe)
    with u "1.prems" show ?thesis by simp
  next
    case False
    with "1.IH" "1.prems" have "2 ^ 52 \<le> x div 2 div ulp_of (x div 2)" "2 \<le> ulp_of (x div 2)"
      by simp_all
    moreover have "x div (2 * ulp_of (x div 2)) = x div 2 div ulp_of (x div 2)"
      by (rule zdiv_zmult2_eq) (rule less_imp_le [OF ulp_of_pos])
    ultimately show ?thesis using u by simp
  qed
qed

lemma round_double_large:
  assumes "2 ^ 53 \<le> v"
  shows "2 ^ 53 \<le> round_double v"
proof -
  let ?u = "ulp_of v"
  from mantissa_of_large [OF assms] have q: "2 ^ 52 \<le> v div ?u" and u: "2 \<le> ?u"
    by simp_all
  have "(2::int) ^ 52 * 2 \<le> (v div ?u) * ?u"
    using q u by (intro mult_mono) simp_all
  then have low: "2 ^ 53 \<le> (v div ?u) * ?u" by simp
  have "(v div ?u) * ?u \<le> (v div ?u + 1) * ?u"
    using u by (intro mult_right_mono) simp_all
  with low have "2 ^ 53 \<le> (v div ?u + 1) * ?u" by (rule order_trans)
  with low assms show ?thesis
    by (simp add: round_double_def Let_def)
qed

lemma round_double_eq_safe:
  fixes v x :: nat
  assumes "x < 2 ^ 53"
  shows "(round_double (int v) = int x) = (v = x)"
proof (cases "int v < 2 ^ 53")
  case True
  then have "round_double (int v) = int v" by (intro round_double_exact) simp
  then show ?thesis by simp
next
  case False
  then have "2 ^ 53 \<le> round_double (int v)" by (intro round_double_large) simp
  moreover from assms have "int x < 2 ^ 53"
    by (metis of_nat_less_iff of_nat_numeral of_nat_power)
  moreover from False this have "v \<noteq> x" by auto
  ultimately show ?thesis by simp
qed

lemma shortest_from_safe: "x < 2 ^ 53 \<Longrightarrow> shortest_from p x = x"
proof (induction p)
  case 0
  show ?case by (subst shortest_from.simps) simp
next
  case (Suc p)
  then show ?case
    by (subst shortest_from.simps) (auto simp: Let_def round_double_eq_safe)
qed

lemma shortest_decimal_safe: "x < 2 ^ 53 \<Longrightarrow> shortest_decimal x = x"
  by (simp add: shortest_decimal_def shortest_from_safe)

lemma getAmountBuffer_bytes:
  assumes pad: "\<forall>hex. padHexStart w hex (Some 16) = replicate (16 - length hex) (CHR ''0'') @ hex"
    and range: "0 \<le> a" "a < 2 ^ 53"
  shows "getAmountBuffer w (Num a) = map (\<lambda>i. of_nat (nat a div 256 ^ i)) [0..<8]"
proof -
  from range have safe: "nat a < 2 ^ 53" by (simp add: nat_less_iff)
  have "(2::nat) ^ 53 \<le> 16 ^ 16" by simp
  with safe have "nat a < 16 ^ 16" by (rule less_le_trans)
  then have "replicate (16 - length (digits16 (nat a))) (CHR ''0'') @ digits16 (nat a)
      = fixed16 16 (nat a)"
    by (rule pad_digits16) simp
  with pad range have "padHexStart w (BigNumber_toString16 (Num a)) (Some 16) = fixed16 (2 * 8) (nat a)"
    by (simp add: shortest_decimal_safe [OF safe])
  then have "getAmountBuffer w (Num a) = rev (big_endian 8 (nat a))"
    using Buffer_from_hex_fixed16 [of 8 "nat a" "[]"]
    by (simp add: getAmountBuffer_def Let_def del: fixed16.simps big_endian.simps)
  then show ?thesis
    by (simp only: rev_big_endian)
qed

text \<open>
  C10 (amended). Let \<^verbatim>\<open>padHexStart (hex, 16)\<close> pad on the left with the digit 0 to 16
  characters. For an amount \<open>a\<close> with \<open>0 \<le> a < 2 ^ 53\<close> the buffer has 8 bytes, and byte
  \<open>i\<close> is \<open>a div 256 ^ i\<close> modulo 256: the amount in little-endian order.
\<close>

theorem getAmountBuffer_little_endian:
  assumes pad: "\<forall>hex. padHexStart w hex (Some 16) = replicate (16 - length hex) (CHR ''0'') @ hex"
    and range: "0 \<le> a" "a < 2 ^ 53"
  shows "length (getAmountBuffer w (Num a)) = 8
    \<and> getAmountBuffer w (Num a) = map (\<lambda>i. of_nat (nat a div 256 ^ i)) [0..<8]"
proof -
  have eq: "getAmountBuffer w (Num a) = map (\<lambda>i. of_nat (nat a div 256 ^ i)) [0..<8]"
    using pad range by (rule getAmountBuffer_bytes)
  then have "length (getAmountBuffer w (Num a)) = 8"
    by (simp only: length_map length_upt)
  with eq show ?thesis by simp
qed

theorem getAmountBuffer_little_endian_witness:
  "getAmountBuffer (example_world (\<lambda>a. False) (\<lambda>a. [])) (Num 10000) = [16, 39, 0, 0, 0, 0, 0, 0]"
proof -
  let ?w = "example_world (\<lambda>a. False) (\<lambda>a. [])"
  have pad: "\<forall>hex. padHexStart ?w hex (Some 16) = replicate (16 - length hex) (CHR ''0'') @ hex"
    by (simp add: example_world_def pad_zeros_def)
  have range: "(0::int) \<le> 10000" "(10000::int) < 2 ^ 53"
    by simp_all
  have bytes: "map (\<lambda>i. (of_nat (nat 10000 div 256 ^ i) :: 8 word)) [0..<8]
      = [16, 39, 0, 0, 0, 0, 0, 0]"
    by (simp add: upt_rec)
  from getAmountBuffer_little_endian [OF pad range] show ?thesis
    unfolding bytes by (rule conjunct2)
qed

text \<open>
  C10 as stated reaches up to \<open>2 ^ 64\<close>. The amount \<open>2 ^ 56 = 72057594037927936\<close> is a
  double. \<^verbatim>\<open>String\<close> gives it the numeral 72057594037927940, the shortest that rounds
  to it, and that is the value \<^verbatim>\<open>BigNumber\<close> encodes: the low byte of the buffer is 4
  where the little-endian encoding of the amount has 0.
\<close>

theorem getAmountBuffer_not_little_endian_above_2_53:
  "round_double 72057594037927936 = 72057594037927936
   \<and> getAmountBuffer (example_world (\<lambda>a. False) (\<lambda>a. [])) (Num 72057594037927936)
       = [4, 0, 0, 0, 0, 0, 0, 1]
   \<and> map (\<lambda>i. (of_nat (nat 72057594037927936 div 256 ^ i) :: 8 word)) [0..<8]
       = [0, 0, 0, 0, 0, 0, 0, 1]"
proof -
  let ?w = "example_world (\<lambda>a. False) (\<lambda>a. [])"
  have ulps:
    "ulp_of 0 = 1"
    "ulp_of 70000000000000000 = 8"
    "ulp_of 72000000000000000 = 8"
    "ulp_of 72050000000000000 = 8"
    "ulp_of 72057000000000000 = 8"
    "ulp_of 72057500000000000 = 8"
    "ulp_of 72057590000000000 = 8"
    "ulp_of 72057594000000000 = 8"
    "ulp_of 72057594030000000 = 8"
    "ulp_of 72057594037000000 = 8"
    "ulp_of 72057594037900000 = 8"
    "ulp_of 72057594037920000 = 8"
    "ulp_of 72057594037927000 = 8"
    "ulp_of 72057594037927900 = 8"
    "ulp_of 72057594037927930 = 8"
    "ulp_of 72057594037927936 = 16"
    "ulp_of 72057594037927940 = 16"
    "ulp_of 72057594037928000 = 16"
    "ulp_of 72057594037930000 = 16"
    "ulp_of 72057594038000000 = 16"
    "ulp_of 72057594040000000 = 16"
    "ulp_of 72057594100000000 = 16"
    "ulp_of 72057595000000000 = 16"
    "ulp_of 72057600000000000 = 16"
    "ulp_of 72058000000000000 = 16"
    "ulp_of 72060000000000000 = 16"
    "ulp_of 72100000000000000 = 16"
    "ulp_of 73000000000000000 = 16"
    "ulp_of 80000000000000000 = 16"
    "ulp_of 100000000000000000 = 16"
    by (simp_all add: ulp_of.simps)
  have rounds:
    "round_double 0 = 0"
    "round_double 70000000000000000 = 70000000000000000"
    "round_double 72000000000000000 = 72000000000000000"
    "round_double 72050000000000000 = 72050000000000000"
    "round_double 72057000000000000 = 72057000000000000"
    "round_double 72057500000000000 = 72057500000000000"
    "round_double 72057590000000000 = 72057590000000000"
    "round_double 72057594000000000 = 72057594000000000"
    "round_double 72057594030000000 = 72057594030000000"
    "round_double 72057594037000000 = 72057594037000000"
    "round_double 72057594037900000 = 72057594037900000"
    "round_double 72057594037920000 = 72057594037920000"
    "round_double 72057594037927000 = 72057594037927000"
    "round_double 72057594037927900 = 72057594037927904"
    "round_double 72057594037927930 = 72057594037927928"
    "round_double 72057594037927936 = 72057594037927936"
    "round_double 72057594037927940 = 72057594037927936"
    "round_double 72057594037928000 = 72057594037928000"
    "round_double 72057594037930000 = 72057594037930000"
    "round_double 72057594038000000 = 72057594038000000"
    "round_double 72057594040000000 = 72057594040000000"
    "round_double 72057594100000000 = 72057594100000000"
    "round_double 72057595000000000 = 72057595000000000"
    "round_double 72057600000000000 = 72057600000000000"
    "round_double 72058000000000000 = 72058000000000000"
    "round_double 72060000000000000 = 72060000000000000"
    "round_double 72100000000000000 = 72100000000000000"
    "round_double 73000000000000000 = 73000000000000000"
    "round_double 80000000000000000 = 80000000000000000"
    "round_double 100000000000000000 = 100000000000000000"
    by (simp_all add: round_double_def Let_def ulps)
  have steps:
    "shortest_from 17 72057594037927936 = shortest_from 16 72057594037927936"
    "shortest_from 16 72057594037927936 = shortest_from 15 72057594037927936"
    "shortest_from 15 72057594037927936 = shortest_from 14 72057594037927936"
    "shortest_from 14 72057594037927936 = shortest_from 13 72057594037927936"
    "shortest_from 13 72057594037927936 = shortest_from 12 72057594037927936"
    "shortest_from 12 72057594037927936 = shortest_from 11 72057594037927936"
    "shortest_from 11 72057594037927936 = shortest_from 10 72057594037927936"
    "shortest_from 10 72057594037927936 = shortest_from 9 72057594037927936"
    "shortest_from 9 72057594037927936 = shortest_from 8 72057594037927936"
    "shortest_from 8 72057594037927936 = shortest_from 7 72057594037927936"
    "shortest_from 7 72057594037927936 = shortest_from 6 72057594037927936"
    "shortest_from 6 72057594037927936 = shortest_from 5 72057594037927936"
    "shortest_from 5 72057594037927936 = shortest_from 4 72057594037927936"
    "shortest_from 4 72057594037927936 = shortest_from 3 72057594037927936"
    "shortest_from 3 72057594037927936 = shortest_from 2 72057594037927936"
    "shortest_from 2 72057594037927936 = shortest_from 1 72057594037927936"
    by (subst shortest_from.simps, simp add: Let_def rounds)+
  have last: "shortest_from 1 72057594037927936 = 72057594037927940"
    by (subst shortest_from.simps) (simp add: Let_def rounds)
  have "decimal_length 72057594037927936 = 17"
    by (simp add: decimal_length.simps)
  then have shortest: "shortest_decimal 72057594037927936 = 72057594037927940"
    by (simp only: shortest_decimal_def steps last)
  have hex: "digits16 72057594037927940 = ''100000000000004''"
    by (simp add: digits16.simps hex_digit_def)
  have buffer: "getAmountBuffer ?w (Num 72057594037927936) = [4, 0, 0, 0, 0, 0, 0, 1]"
    by (simp add: getAmountBuffer_def shortest hex example_world_def pad_zeros_def hex_value_def)
  have bytes: "map (\<lambda>i. (of_nat (nat 72057594037927936 div 256 ^ i) :: 8 word)) [0..<8]
      = [0, 0, 0, 0, 0, 0, 0, 1]"
    by (simp add: upt_rec)
  show ?thesis
    by (simp only: rounds buffer bytes simp_thms)
qed

end
